theory Spec2Isabelle
  imports Main "HOL-Library.Sublist"
begin

section \<open>Python values\<close>

text \<open>
  The code handles loosely typed, JSON-like data: the responses of the two Bedrock clients
  and the dictionaries built from them. A value is one of Python's \<open>None\<close>, \<open>bool\<close>,
  \<open>int\<close>, \<open>float\<close>, \<open>str\<close>, \<open>list\<close> and \<open>dict\<close> (with string keys). A dictionary is
  an association list in insertion order, which is the order in which Python iterates over
  it and serialises it; lookup takes the first binding of a key. A float is identified by
  its \<open>repr\<close> text (\<open>''0.0''\<close>, \<open>''1.0''\<close>, \<open>''nan''\<close>, ...): the code only passes floats
  on, tests them for truth and prints them. Strings are character lists, a character
  being a code point below 256; \<open>upper\<close> and \<open>lower\<close> below are those of ASCII text.
\<close>

datatype pyval =
    PNone
  | PBool bool
  | PInt int
  | PFloat string
  | PStr string
  | PList "pyval list"
  | PDict "(string \<times> pyval) list"

text \<open>The exceptions the code can meet; each carries the text that \<open>str(e)\<close> gives.\<close>

datatype pyexn =
    ClientError string
  | AttributeError string
  | TypeError string
  | OtherException string

fun exn_str :: "pyexn \<Rightarrow> string" where
  "exn_str (ClientError m) = m"
| "exn_str (AttributeError m) = m"
| "exn_str (TypeError m) = m"
| "exn_str (OtherException m) = m"

fun is_client_error :: "pyexn \<Rightarrow> bool" where
  "is_client_error (ClientError m) = True"
| "is_client_error e = False"

text \<open>Truth value of an object, as \<open>if x\<close>, \<open>not x\<close> and \<open>x or y\<close> test it.\<close>

fun truthy :: "pyval \<Rightarrow> bool" where
  "truthy PNone = False"
| "truthy (PBool b) = b"
| "truthy (PInt i) = (i \<noteq> 0)"
| "truthy (PFloat r) = (r \<noteq> ''0.0'' \<and> r \<noteq> ''-0.0'')"
| "truthy (PStr s) = (s \<noteq> [])"
| "truthy (PList xs) = (xs \<noteq> [])"
| "truthy (PDict kvs) = (kvs \<noteq> [])"

definition py_or :: "pyval \<Rightarrow> pyval \<Rightarrow> pyval" where
  "py_or a b = (if truthy a then a else b)"

fun is_str :: "pyval \<Rightarrow> bool" where
  "is_str (PStr s) = True"
| "is_str v = False"

fun type_name :: "pyval \<Rightarrow> string" where
  "type_name PNone = ''NoneType''"
| "type_name (PBool b) = ''bool''"
| "type_name (PInt i) = ''int''"
| "type_name (PFloat r) = ''float''"
| "type_name (PStr s) = ''str''"
| "type_name (PList xs) = ''list''"
| "type_name (PDict kvs) = ''dict''"

text \<open>\<open>d.get(k)\<close> on a dictionary: the value, or \<open>None\<close> when the key is absent.\<close>

definition dict_get :: "(string \<times> pyval) list \<Rightarrow> string \<Rightarrow> pyval" where
  "dict_get d k = (case map_of d k of None \<Rightarrow> PNone | Some v \<Rightarrow> v)"

text \<open>
  \<open>x.get(k)\<close> on an arbitrary object: only a dictionary has the method, anything else
  raises \<open>AttributeError\<close>.
\<close>

definition quoted :: "string \<Rightarrow> string" where
  "quoted s = [CHR 0x27] @ s @ [CHR 0x27]"

definition no_attribute :: "pyval \<Rightarrow> string \<Rightarrow> pyexn" where
  "no_attribute v a =
     AttributeError (quoted (type_name v) @ '' object has no attribute '' @ quoted a)"

fun py_get :: "pyval \<Rightarrow> string \<Rightarrow> pyexn + pyval" where
  "py_get (PDict d) k = Inr (dict_get d k)"
| "py_get v k = Inl (no_attribute v ''get'')"

text \<open>
  Iteration, as a \<open>for\<close> loop or a comprehension does it: a list gives its elements, a
  dictionary its keys, a string its characters as one-character strings; the other types
  raise \<open>TypeError\<close>.
\<close>

fun py_iter :: "pyval \<Rightarrow> pyexn + pyval list" where
  "py_iter (PList xs) = Inr xs"
| "py_iter (PDict d) = Inr (map (\<lambda>kv. PStr (fst kv)) d)"
| "py_iter (PStr s) = Inr (map (\<lambda>c. PStr [c]) s)"
| "py_iter v = Inl (TypeError (quoted (type_name v) @ '' object is not iterable''))"

subsection \<open>Strings\<close>

definition upper_char :: "char \<Rightarrow> char" where
  "upper_char c =
     (let n = (of_char c :: nat) in if 97 \<le> n \<and> n \<le> 122 then char_of (n - 32) else c)"

definition lower_char :: "char \<Rightarrow> char" where
  "lower_char c =
     (let n = (of_char c :: nat) in if 65 \<le> n \<and> n \<le> 90 then char_of (n + 32) else c)"

definition py_upper :: "string \<Rightarrow> string" where
  "py_upper s = map upper_char s"

definition py_lower :: "string \<Rightarrow> string" where
  "py_lower s = map lower_char s"

text \<open>\<open>sub in s\<close> on strings: \<open>sub\<close> occurs in \<open>s\<close> as a contiguous run.\<close>

fun starts_with :: "string \<Rightarrow> string \<Rightarrow> bool" where
  "starts_with [] s = True"
| "starts_with (c # cs) [] = False"
| "starts_with (c # cs) (d # ds) = (c = d \<and> starts_with cs ds)"

fun str_in :: "string \<Rightarrow> string \<Rightarrow> bool" where
  "str_in sub [] = (sub = [])"
| "str_in sub (d # ds) = (starts_with sub (d # ds) \<or> str_in sub ds)"

text \<open>\<open>sep.join(xs)\<close>.\<close>

fun py_join :: "string \<Rightarrow> string list \<Rightarrow> string" where
  "py_join sep [] = []"
| "py_join sep [x] = x"
| "py_join sep (x # y # ys) = x @ sep @ py_join sep (y # ys)"

subsection \<open>Serialisation: \<open>json.dumps\<close> and \<open>str\<close>\<close>

fun dec_nat :: "nat \<Rightarrow> string" where
  "dec_nat n =
     (if n < 10 then [char_of (48 + n)] else dec_nat (n div 10) @ [char_of (48 + n mod 10)])"

declare dec_nat.simps [simp del]

definition dec_int :: "int \<Rightarrow> string" where
  "dec_int i = (if i < 0 then CHR ''-'' # dec_nat (nat (- i)) else dec_nat (nat i))"

definition hex_digit :: "nat \<Rightarrow> char" where
  "hex_digit n = (if n < 10 then char_of (48 + n) else char_of (87 + n))"

definition hex2 :: "char \<Rightarrow> string" where
  "hex2 c = (let n = (of_char c :: nat) in [hex_digit (n div 16), hex_digit (n mod 16)])"

text \<open>
  \<open>json.dumps\<close> with its defaults (\<open>ensure_ascii=True\<close>, separators \<open>'', ''\<close> and
  \<open>'': ''\<close>, \<open>allow_nan=True\<close>).
\<close>

definition json_escape_char :: "char \<Rightarrow> string" where
  "json_escape_char c =
     (if c = CHR 0x22 then [CHR 0x5C, CHR 0x22]
      else if c = CHR 0x5C then [CHR 0x5C, CHR 0x5C]
      else if c = CHR 0x0A then [CHR 0x5C, CHR ''n'']
      else if c = CHR 0x0D then [CHR 0x5C, CHR ''r'']
      else if c = CHR 0x09 then [CHR 0x5C, CHR ''t'']
      else if c = CHR 0x08 then [CHR 0x5C, CHR ''b'']
      else if c = CHR 0x0C then [CHR 0x5C, CHR ''f'']
      else if 32 \<le> (of_char c :: nat) \<and> (of_char c :: nat) \<le> 126 then [c]
      else [CHR 0x5C, CHR ''u'', CHR ''0'', CHR ''0''] @ hex2 c)"

definition json_string :: "string \<Rightarrow> string" where
  "json_string s = [CHR 0x22] @ concat (map json_escape_char s) @ [CHR 0x22]"

definition json_float :: "string \<Rightarrow> string" where
  "json_float r =
     (if r = ''nan'' then ''NaN'' else if r = ''inf'' then ''Infinity''
      else if r = ''-inf'' then ''-Infinity'' else r)"

fun json_text :: "pyval \<Rightarrow> string"
  and json_items :: "pyval list \<Rightarrow> string list"
  and json_members :: "(string \<times> pyval) list \<Rightarrow> string list" where
  "json_text PNone = ''null''"
| "json_text (PBool b) = (if b then ''true'' else ''false'')"
| "json_text (PInt i) = dec_int i"
| "json_text (PFloat r) = json_float r"
| "json_text (PStr s) = json_string s"
| "json_text (PList xs) = ''['' @ py_join '', '' (json_items xs) @ '']''"
| "json_text (PDict kvs) = ''{'' @ py_join '', '' (json_members kvs) @ ''}''"
| "json_items [] = []"
| "json_items (x # xs) = json_text x # json_items xs"
| "json_members [] = []"
| "json_members (kv # kvs) =
     (json_string (fst kv) @ '': '' @ json_text (snd kv)) # json_members kvs"

text \<open>
  \<open>json.dumps\<close> raises on objects that JSON cannot express; every value of \<^typ>\<open>pyval\<close>
  can be expressed, so on this universe it always returns.
\<close>

definition json_dumps :: "pyval \<Rightarrow> pyexn + string" where
  "json_dumps v = Inr (json_text v)"

text \<open>\<open>repr\<close> and \<open>str\<close>.\<close>

definition repr_quote :: "string \<Rightarrow> char" where
  "repr_quote s = (if CHR 0x27 \<in> set s \<and> CHR 0x22 \<notin> set s then CHR 0x22 else CHR 0x27)"

text \<open>
  The characters that \<open>repr\<close> leaves as they are: the printable ones, which among the
  code points below 256 are 32 to 126 and 161 to 255 without the soft hyphen 173.
\<close>

definition printable :: "char \<Rightarrow> bool" where
  "printable c =
     (let n = (of_char c :: nat) in (32 \<le> n \<and> n \<le> 126) \<or> (161 \<le> n \<and> n \<noteq> 173))"

definition repr_escape_char :: "char \<Rightarrow> char \<Rightarrow> string" where
  "repr_escape_char q c =
     (if c = q \<or> c = CHR 0x5C then [CHR 0x5C, c]
      else if c = CHR 0x09 then [CHR 0x5C, CHR ''t'']
      else if c = CHR 0x0A then [CHR 0x5C, CHR ''n'']
      else if c = CHR 0x0D then [CHR 0x5C, CHR ''r'']
      else if printable c then [c]
      else [CHR 0x5C, CHR ''x''] @ hex2 c)"

definition repr_string :: "string \<Rightarrow> string" where
  "repr_string s =
     (let q = repr_quote s in [q] @ concat (map (repr_escape_char q) s) @ [q])"

fun py_repr :: "pyval \<Rightarrow> string"
  and repr_items :: "pyval list \<Rightarrow> string list"
  and repr_members :: "(string \<times> pyval) list \<Rightarrow> string list" where
  "py_repr PNone = ''None''"
| "py_repr (PBool b) = (if b then ''True'' else ''False'')"
| "py_repr (PInt i) = dec_int i"
| "py_repr (PFloat r) = r"
| "py_repr (PStr s) = repr_string s"
| "py_repr (PList xs) = ''['' @ py_join '', '' (repr_items xs) @ '']''"
| "py_repr (PDict kvs) = ''{'' @ py_join '', '' (repr_members kvs) @ ''}''"
| "repr_items [] = []"
| "repr_items (x # xs) = py_repr x # repr_items xs"
| "repr_members [] = []"
| "repr_members (kv # kvs) =
     (repr_string (fst kv) @ '': '' @ py_repr (snd kv)) # repr_members kvs"

fun py_str :: "pyval \<Rightarrow> string" where
  "py_str (PStr s) = s"
| "py_str v = py_repr v"

text \<open>Sequencing of computations that may raise.\<close>

definition and_then :: "pyexn + 'a \<Rightarrow> ('a \<Rightarrow> pyexn + 'b) \<Rightarrow> pyexn + 'b" where
  "and_then r f = (case r of Inl e \<Rightarrow> Inl e | Inr v \<Rightarrow> f v)"

section \<open>The environment\<close>

text \<open>
  The two Bedrock clients and the JSON decoder are outside the code. A call of a client
  either raises or returns; the body of a model response is a stream with a \<open>read\<close>
  method, a buffered string, or absent. The decoder \<open>json.loads\<close> turns text into a value
  or raises. Every call of a client and every line printed is recorded, in order.
\<close>

datatype body = StreamingBody string | BufferedBody string | NoBody

record env =
  retrieve :: "string \<Rightarrow> string \<Rightarrow> int \<Rightarrow> pyexn + pyval"
  invoke_model :: "string \<Rightarrow> string \<Rightarrow> pyexn + body"
  json_loads :: "string \<Rightarrow> pyexn + pyval"

datatype event =
    Retrieve string string int
  | InvokeModel string string
  | Printed string

fun is_retrieve :: "event \<Rightarrow> bool" where
  "is_retrieve (Retrieve kb q k) = True"
| "is_retrieve ev = False"

fun is_invoke :: "event \<Rightarrow> bool" where
  "is_invoke (InvokeModel m b) = True"
| "is_invoke ev = False"

section \<open>bedrock\_utils.py\<close>

subsection \<open>\<open>_normalize_retrieval_item\<close>\<close>

text \<open>
  The text found under \<open>content\<close> or \<open>contents\<close> (lines 33 to 39): a dictionary is probed
  for \<open>text\<close> and \<open>documentText\<close>; of a non-empty list the first element is probed if
  it is a dictionary; otherwise the text stays \<open>''\<close>.
\<close>

definition text_or_document_text :: "(string \<times> pyval) list \<Rightarrow> pyval" where
  "text_or_document_text c =
     py_or (dict_get c ''text'') (py_or (dict_get c ''documentText'') (PStr []))"

fun content_text :: "pyval \<Rightarrow> pyval" where
  "content_text (PDict c) = text_or_document_text c"
| "content_text (PList (PDict f # rest)) = text_or_document_text f"
| "content_text content = PStr []"

text \<open>
  \<open>a or doc.get(k)\<close>: the method is only called, and can only raise, when \<open>a\<close> is false.
\<close>

definition or_doc_get :: "pyval \<Rightarrow> pyval \<Rightarrow> string \<Rightarrow> pyexn + pyval" where
  "or_doc_get a doc k = (if truthy a then Inr a else py_get doc k)"

fun normalize_retrieval_item :: "pyval \<Rightarrow> pyexn + pyval" where
  "normalize_retrieval_item (PDict item) =
     (let doc = py_or (dict_get item ''document'') (PDict []);
          content = py_or (dict_get item ''content'') (dict_get item ''contents'');
          text0 = content_text content
      in and_then
           (if \<not> truthy text0
            then and_then
                   (or_doc_get (py_or (dict_get item ''text'') (dict_get item ''documentText''))
                      doc ''text'')
                   (\<lambda>t. Inr (py_or t (PStr [])))
            else Inr text0)
           (\<lambda>text. and_then
              (or_doc_get (py_or (dict_get item ''documentId'') (dict_get item ''id'')) doc ''id'')
              (\<lambda>doc_id. and_then
                 (or_doc_get (dict_get item ''metadata'') doc ''metadata'')
                 (\<lambda>m. let metadata = py_or m (PDict []);
                           score = py_or (dict_get item ''score'')
                                     (py_or (dict_get item ''similarity'')
                                        (dict_get item ''relevanceScore''))
                       in Inr (PDict [(''id'', doc_id), (''text'', text),
                                      (''metadata'', metadata), (''score'', score)])))))"
| "normalize_retrieval_item item =
     Inr (PDict [(''id'', PNone), (''text'', PStr (py_str item)),
                 (''metadata'', PDict []), (''score'', PNone)])"

subsection \<open>\<open>query_knowledge_base\<close>\<close>

text \<open>Line 64: the batch is the first true value among four keys of the response, or \<open>[]\<close>.\<close>

definition extract_results :: "pyval \<Rightarrow> pyexn + pyval" where
  "extract_results response =
     and_then (py_get response ''retrievalResults'') (\<lambda>a.
       if truthy a then Inr a else
       and_then (py_get response ''results'') (\<lambda>b.
         if truthy b then Inr b else
         and_then (py_get response ''items'') (\<lambda>c.
           if truthy c then Inr c else
           and_then (py_get response ''hits'') (\<lambda>d. Inr (py_or d (PList []))))))"

text \<open>
  Lines 69 to 72: the loop over the keys of a dictionary batch; the first key that holds a
  list replaces the batch, and if none does the batch stays the dictionary it was.
\<close>

fun unwrap_nested :: "string list \<Rightarrow> (string \<times> pyval) list \<Rightarrow> pyval" where
  "unwrap_nested [] results = PDict results"
| "unwrap_nested (k # ks) results =
     (case map_of results k of
        Some (PList xs) \<Rightarrow> PList xs
      | _ \<Rightarrow> unwrap_nested ks results)"

fun unwrap_results :: "pyval \<Rightarrow> pyval" where
  "unwrap_results (PDict results) = unwrap_nested [''items'', ''results'', ''hits''] results"
| "unwrap_results results = results"

text \<open>Line 74: the comprehension stops at the first item whose normalisation raises.\<close>

fun normalize_all :: "pyval list \<Rightarrow> pyexn + pyval list" where
  "normalize_all [] = Inr []"
| "normalize_all (r # rs) =
     and_then (normalize_retrieval_item r) (\<lambda>p.
       and_then (normalize_all rs) (\<lambda>ps. Inr (p # ps)))"

definition normalize_response :: "pyval \<Rightarrow> pyexn + pyval list" where
  "normalize_response response =
     and_then (extract_results response) (\<lambda>results.
       and_then (py_iter (py_or (unwrap_results results) (PList []))) normalize_all)"

definition kb_error_line :: "pyexn \<Rightarrow> string" where
  "kb_error_line e =
     (if is_client_error e then ''Error querying Knowledge Base: '' @ exn_str e
      else ''Unexpected error querying KB: '' @ exn_str e)"

definition query_knowledge_base ::
  "env \<Rightarrow> string \<Rightarrow> string \<Rightarrow> int \<Rightarrow> event list \<Rightarrow> pyval list \<times> event list" where
  "query_knowledge_base env query kb_id top_k log =
     (let log1 = log @ [Retrieve kb_id query top_k] in
      case and_then (retrieve env kb_id query top_k) normalize_response of
        Inr normalized \<Rightarrow> (normalized, log1)
      | Inl e \<Rightarrow> ([], log1 @ [Printed (kb_error_line e)]))"

subsection \<open>\<open>generate_response\<close>\<close>

text \<open>Lines 91 to 108: the request payload, in one of two shapes chosen by the model id.\<close>

definition claude_payload :: "string \<Rightarrow> pyval \<Rightarrow> pyval \<Rightarrow> int \<Rightarrow> pyval" where
  "claude_payload prompt temperature top_p max_tokens =
     PDict [(''anthropic_version'', PStr ''bedrock-2023-05-31''),
            (''messages'',
               PList [PDict [(''role'', PStr ''user''),
                             (''content'',
                                PList [PDict [(''type'', PStr ''text''),
                                              (''text'', PStr prompt)]])]]),
            (''max_tokens'', PInt max_tokens),
            (''temperature'', temperature),
            (''top_p'', top_p)]"

definition generic_payload :: "string \<Rightarrow> pyval \<Rightarrow> pyval \<Rightarrow> int \<Rightarrow> pyval" where
  "generic_payload prompt temperature top_p max_tokens =
     PDict [(''input'', PStr prompt),
            (''max_tokens'', PInt max_tokens),
            (''temperature'', temperature),
            (''top_p'', top_p)]"

definition build_payload :: "string \<Rightarrow> string \<Rightarrow> pyval \<Rightarrow> pyval \<Rightarrow> int \<Rightarrow> pyval" where
  "build_payload prompt model_id temperature top_p max_tokens =
     (let lower_id = py_lower model_id in
      if str_in ''anthropic.'' lower_id \<or> str_in ''claude'' lower_id
      then claude_payload prompt temperature top_p max_tokens
      else generic_payload prompt temperature top_p max_tokens)"

text \<open>Lines 118 to 122: the body is read if it is a stream, then decoded.\<close>

fun read_body :: "env \<Rightarrow> body \<Rightarrow> pyexn + pyval" where
  "read_body env (StreamingBody text) = json_loads env text"
| "read_body env (BufferedBody text) = json_loads env text"
| "read_body env NoBody =
     Inl (TypeError ''the JSON object must be str, bytes or bytearray, not NoneType'')"

text \<open>
  Lines 133 to 135 and 141 to 143: the first of the keys that holds a string.
\<close>

fun first_str_field :: "string list \<Rightarrow> (string \<times> pyval) list \<Rightarrow> pyval option" where
  "first_str_field [] d = None"
| "first_str_field (k # ks) d =
     (case map_of d k of
        Some (PStr s) \<Rightarrow> Some (PStr s)
      | _ \<Rightarrow> first_str_field ks d)"

text \<open>Lines 127 to 130: the \<open>text\<close> of the first element of a \<open>content\<close> list, whatever it is.\<close>

definition content_first_text :: "(string \<times> pyval) list \<Rightarrow> pyval option" where
  "content_first_text data =
     (case map_of data ''content'' of
        Some (PList (PDict first # rest)) \<Rightarrow> map_of first ''text''
      | _ \<Rightarrow> None)"

text \<open>Lines 138 to 143: a string field of the first element of a \<open>results\<close> list.\<close>

definition results_first_text :: "(string \<times> pyval) list \<Rightarrow> pyval option" where
  "results_first_text data =
     (case map_of data ''results'' of
        Some (PList (PDict r0 # rest)) \<Rightarrow>
          first_str_field [''output'', ''text'', ''generatedText''] r0
      | _ \<Rightarrow> None)"

text \<open>Lines 126 to 146: the text of a decoded response.\<close>

fun extract_text :: "pyval \<Rightarrow> pyexn + pyval" where
  "extract_text (PDict data) =
     (case content_first_text data of
        Some t \<Rightarrow> Inr t
      | None \<Rightarrow>
          (case first_str_field [''output'', ''generatedText'', ''text'', ''result''] data of
             Some t \<Rightarrow> Inr t
           | None \<Rightarrow>
               (case results_first_text data of
                  Some t \<Rightarrow> Inr t
                | None \<Rightarrow> and_then (json_dumps (PDict data)) (\<lambda>t. Inr (PStr t)))))"
| "extract_text data = and_then (json_dumps data) (\<lambda>t. Inr (PStr t))"

definition generate_error_line :: "pyexn \<Rightarrow> string" where
  "generate_error_line e =
     (if is_client_error e then ''Error generating response: '' @ exn_str e
      else ''Unexpected error invoking model: '' @ exn_str e)"

definition generate_response ::
  "env \<Rightarrow> string \<Rightarrow> string \<Rightarrow> pyval \<Rightarrow> pyval \<Rightarrow> int \<Rightarrow> event list \<Rightarrow> pyval \<times> event list" where
  "generate_response env prompt model_id temperature top_p max_tokens log =
     (let payload = build_payload prompt model_id temperature top_p max_tokens in
      case json_dumps payload of
        Inl e \<Rightarrow> (PNone, log @ [Printed (generate_error_line e)])
      | Inr request \<Rightarrow>
          (let log1 = log @ [InvokeModel model_id request] in
           case and_then (invoke_model env model_id request) (\<lambda>body.
                  and_then (read_body env body) extract_text) of
             Inr t \<Rightarrow> (t, log1)
           | Inl e \<Rightarrow> (PNone, log1 @ [Printed (generate_error_line e)])))"

subsection \<open>\<open>valid_prompt\<close>\<close>

definition system_message :: string where
  "system_message =
     ''Classify the user request into one category: A,B,C,D,E. '' @
     ''Respond with a single line like: '' @ quoted ''Category E''"

definition classification :: "pyval \<Rightarrow> string \<Rightarrow> pyval" where
  "classification category raw = PDict [(''category'', category), (''raw'', PStr raw)]"

text \<open>Lines 171 to 175: the letters are tried in the order of the tuple.\<close>

fun scan_letters :: "string list \<Rightarrow> string \<Rightarrow> pyval" where
  "scan_letters [] raw = classification PNone raw"
| "scan_letters (ch # chs) raw =
     (if str_in ch (py_upper raw) then classification (PStr ch) raw
      else scan_letters chs raw)"

text \<open>
  Lines 168 to 178 on the answer of the model: \<open>raw.upper()\<close> exists on a string only,
  and the handler turns the exception into a classification without a category.
\<close>

definition classify_response :: "pyval \<Rightarrow> pyval \<times> event list" where
  "classify_response resp_text =
     (case py_or resp_text (PStr []) of
        PStr raw \<Rightarrow> (scan_letters [''A'', ''B'', ''C'', ''D'', ''E''] raw, [])
      | other \<Rightarrow>
          (let e = no_attribute other ''upper'' in
           (classification PNone (exn_str e),
            [Printed (''Error validating prompt: '' @ exn_str e)])))"

definition valid_prompt ::
  "env \<Rightarrow> string \<Rightarrow> string \<Rightarrow> event list \<Rightarrow> pyval \<times> event list" where
  "valid_prompt env prompt model_id log =
     (let full_prompt = system_message @ ''\<newline>\<newline>'' @ prompt;
          (resp_text, log1) =
             generate_response env full_prompt model_id (PFloat ''0.0'') (PFloat ''1.0'') 8 log;
          (result, printed) = classify_response resp_text
      in (result, log1 @ printed))"

section \<open>app.py: one chat turn\<close>

definition truncation_marker :: string where
  "truncation_marker = ''\<newline>...[truncated]''"

text \<open>Lines 52 to 55: the first element of a \<open>content\<close> list that has a string \<open>text\<close>.\<close>

fun first_item_text :: "pyval list \<Rightarrow> string option" where
  "first_item_text [] = None"
| "first_item_text (PDict item # rest) =
     (case map_of item ''text'' of
        Some (PStr s) \<Rightarrow> Some s
      | _ \<Rightarrow> first_item_text rest)"
| "first_item_text (other # rest) = first_item_text rest"

text \<open>Lines 48 to 55: the text under \<open>content\<close>.\<close>

fun content_piece :: "pyval \<Rightarrow> string option" where
  "content_piece (PDict content) =
     (case map_of content ''text'' of Some (PStr s) \<Rightarrow> Some s | _ \<Rightarrow> None)"
| "content_piece (PList content) = first_item_text content"
| "content_piece content = None"

text \<open>
  Lines 41 to 60: \<open>text_piece\<close> after the probing, \<open>None\<close> when no branch assigned it.
  The branches are an \<open>if\<close>/\<open>elif\<close> chain: a result with a \<open>content\<close> key is not
  probed for \<open>chunks\<close> or \<open>preview\<close>.
\<close>

fun probe_text :: "pyval \<Rightarrow> string option" where
  "probe_text (PDict result) =
     (case map_of result ''text'' of
        Some (PStr s) \<Rightarrow> Some s
      | _ \<Rightarrow>
          (case map_of result ''content'' of
             Some content \<Rightarrow> content_piece content
           | None \<Rightarrow>
               (case map_of result ''chunks'' of
                  Some (PStr s) \<Rightarrow> Some s
                | _ \<Rightarrow>
                    (case map_of result ''preview'' of
                       Some (PStr s) \<Rightarrow> Some s
                     | _ \<Rightarrow> None))))"
| "probe_text result = None"

text \<open>Lines 62 to 66: the last resort, \<open>json.dumps\<close> and, should it raise, \<open>str\<close>.\<close>

definition stringify :: "pyval \<Rightarrow> string" where
  "stringify result = (case json_dumps result of Inr s \<Rightarrow> s | Inl e \<Rightarrow> py_str result)"

text \<open>Lines 41 to 66: \<open>text_piece\<close> when line 67 tests it.\<close>

definition resolve_text :: "pyval \<Rightarrow> string" where
  "resolve_text result =
     (case probe_text result of
        None \<Rightarrow> stringify result
      | Some s \<Rightarrow> if s = [] then stringify result else s)"

text \<open>Lines 69 and 70.\<close>

definition cap_piece :: "string \<Rightarrow> string" where
  "cap_piece text_piece =
     (if length text_piece > 5000 then take 5000 text_piece @ truncation_marker
      else text_piece)"

text \<open>Lines 39 to 71: the loop, with \<open>context_pieces\<close> as its accumulator.\<close>

fun collect_pieces :: "pyval list \<Rightarrow> string list \<Rightarrow> string list" where
  "collect_pieces [] context_pieces = context_pieces"
| "collect_pieces (result # rest) context_pieces =
     (let text_piece = resolve_text result in
      if text_piece \<noteq> []
      then collect_pieces rest (context_pieces @ [cap_piece text_piece])
      else collect_pieces rest context_pieces)"

text \<open>Lines 73 to 75.\<close>

definition cap_context :: "string \<Rightarrow> string" where
  "cap_context context =
     (if length context > 15000 then take 15000 context @ truncation_marker else context)"

definition assemble_context :: "pyval list \<Rightarrow> string" where
  "assemble_context kb_results = cap_context (py_join ''\<newline>'' (collect_pieces kb_results []))"

definition rejection_message :: string where
  "rejection_message = ''I'm unable to answer this, please try again''"

text \<open>
  Lines 29 to 86. The session holds the chat history; the widgets that draw it are left
  out. The chat input gives \<open>None\<close> when nothing was entered; line 29 starts a turn only
  for a prompt that is true, that is a non-empty string. The turn appends the prompt,
  computes the response and appends it.
\<close>

record session =
  messages :: "(string \<times> pyval) list"
  trace :: "event list"

definition respond ::
  "env \<Rightarrow> string \<Rightarrow> string \<Rightarrow> string \<Rightarrow> pyval \<Rightarrow> pyval \<Rightarrow> event list \<Rightarrow> pyval \<times> event list" where
  "respond env prompt model_id kb_id temperature top_p log =
     (let (verdict, log1) = valid_prompt env prompt model_id log in
      if truthy verdict
      then (let (kb_results, log2) = query_knowledge_base env prompt kb_id 3 log1;
                context = assemble_context kb_results;
                full_prompt = ''Context: '' @ context @ ''\<newline>\<newline>User: '' @ prompt
                                @ ''\<newline>\<newline>''
            in generate_response env full_prompt model_id temperature top_p 512 log2)
      else (PStr rejection_message, log1))"

definition chat_turn ::
  "env \<Rightarrow> string option \<Rightarrow> string \<Rightarrow> string \<Rightarrow> pyval \<Rightarrow> pyval \<Rightarrow> session \<Rightarrow> session" where
  "chat_turn env chat_input model_id kb_id temperature top_p st =
     (case chat_input of
        None \<Rightarrow> st
      | Some prompt \<Rightarrow>
          if prompt = [] then st
          else (let (response, log) =
                      respond env prompt model_id kb_id temperature top_p (trace st)
                in \<lparr>messages =
                      messages st @ [(''user'', PStr prompt), (''assistant'', response)],
                    trace = log\<rparr>))"

section \<open>Shapes of retrieval items, and example inputs\<close>

text \<open>
  A value that the normaliser can take as a text: a string, or anything false (which an
  \<open>or\<close> chain skips).
\<close>

definition text_like :: "pyval \<Rightarrow> bool" where
  "text_like v = (is_str v \<or> \<not> truthy v)"

fun nested_text_like :: "pyval \<Rightarrow> bool" where
  "nested_text_like (PDict c) =
     (text_like (dict_get c ''text'') \<and> text_like (dict_get c ''documentText''))"
| "nested_text_like (PList (PDict f # rest)) =
     (text_like (dict_get f ''text'') \<and> text_like (dict_get f ''documentText''))"
| "nested_text_like content = True"

fun document_ok :: "pyval \<Rightarrow> bool" where
  "document_ok (PDict doc) = text_like (dict_get doc ''text'')"
| "document_ok doc = (\<not> truthy doc)"

text \<open>
  An item is well shaped if it is not a dictionary, or if its \<open>document\<close> is absent, false
  or a dictionary, and every text candidate it offers (under \<open>content\<close> or \<open>contents\<close>,
  at top level, under \<open>document\<close>) is a string or false.
\<close>

fun well_shaped_item :: "pyval \<Rightarrow> bool" where
  "well_shaped_item (PDict item) =
     (document_ok (dict_get item ''document'')
      \<and> nested_text_like (py_or (dict_get item ''content'') (dict_get item ''contents''))
      \<and> text_like (dict_get item ''text'')
      \<and> text_like (dict_get item ''documentText''))"
| "well_shaped_item item = True"

text \<open>The text of a normalised passage: what its \<open>text\<close> key holds.\<close>

fun passage_text :: "pyval \<Rightarrow> pyval" where
  "passage_text (PDict p) = dict_get p ''text''"
| "passage_text p = PNone"

text \<open>
  An environment for examples. Its model answers every request with the JSON object
  \<open>{"output": answer}\<close>, as a stream; its decoder knows that text only; its knowledge
  base \<open>KB1\<close> holds one passage, and any other id is refused.
\<close>

definition canned_env :: "string \<Rightarrow> env" where
  "canned_env answer =
     \<lparr>retrieve = (\<lambda>kb_id query top_k.
          if kb_id = ''KB1''
          then Inr (PDict [(''retrievalResults'',
                            PList [PDict [(''content'', PDict [(''text'', PStr ''Paris'')]),
                                          (''score'', PFloat ''0.5'')]])])
          else Inl (ClientError ''An error occurred (ResourceNotFoundException)'')),
      invoke_model = (\<lambda>model_id request.
          Inr (StreamingBody (json_text (PDict [(''output'', PStr answer)])))),
      json_loads = (\<lambda>text.
          if text = json_text (PDict [(''output'', PStr answer)])
          then Inr (PDict [(''output'', PStr answer)])
          else Inl (OtherException ''Expecting value''))\<rparr>"

definition haiku :: string where
  "haiku = ''anthropic.claude-3-haiku-20240307-v1:0''"

text \<open>A text of \<open>n\<close> characters.\<close>

definition long_text :: "nat \<Rightarrow> string" where
  "long_text n = replicate n CHR ''x''"

definition text_passage :: "string \<Rightarrow> pyval" where
  "text_passage t =
     PDict [(''id'', PNone), (''text'', PStr t), (''metadata'', PDict []), (''score'', PNone)]"



text \<open>Four passages of 5001 characters each.\<close>

definition long_passages :: "pyval list" where
  "long_passages =
     [text_passage (long_text 5001), text_passage (long_text 5001),
      text_passage (long_text 5001), text_passage (long_text 5001)]"

section \<open>Properties\<close>

subsection \<open>Auxiliary facts\<close>



lemma collect_pieces_filter:
  "collect_pieces rs acc =
     acc @ map cap_piece (filter (\<lambda>t. t \<noteq> []) (map resolve_text rs))"
  by (induction rs arbitrary: acc) (simp_all add: Let_def)

lemma length_truncation_marker: "length truncation_marker = 15"
  by (simp add: truncation_marker_def)

lemma length_cap_context: "length (cap_context c) \<le> 15000 + length truncation_marker"
  by (simp add: cap_context_def)

lemma classification_truthy: "truthy (classification c raw)"
  by (simp add: classification_def)

lemma scan_letters_truthy: "truthy (scan_letters chs raw)"
  by (induction chs) (simp_all add: classification_truthy)

lemma classify_response_truthy: "truthy (fst (classify_response r))"
  by (simp add: classify_response_def Let_def scan_letters_truthy classification_truthy
        split: pyval.splits)

lemma valid_prompt_truthy: "truthy (fst (valid_prompt env prompt model_id log))"
  by (simp add: valid_prompt_def Let_def split_beta classify_response_truthy)

lemma respond_never_rejects:
  "respond env prompt model_id kb_id temperature top_p log =
     (let (verdict, log1) = valid_prompt env prompt model_id log;
          (kb_results, log2) = query_knowledge_base env prompt kb_id 3 log1
      in generate_response env
           (''Context: '' @ assemble_context kb_results @ ''\<newline>\<newline>User: '' @ prompt
              @ ''\<newline>\<newline>'')
           model_id temperature top_p 512 log2)"
  by (simp add: respond_def Let_def split_beta valid_prompt_truthy)

lemma length_long_text: "length (long_text n) = n"
  by (simp add: long_text_def)

lemma resolve_text_of_text:
  "map_of p ''text'' = Some (PStr t) \<Longrightarrow> t \<noteq> [] \<Longrightarrow> resolve_text (PDict p) = t"
  by (simp add: resolve_text_def)

lemma resolve_text_passage: "t \<noteq> [] \<Longrightarrow> resolve_text (text_passage t) = t"
  by (simp add: text_passage_def resolve_text_def)

lemma text_or_document_text_str:
  "text_like (dict_get c ''text'') \<Longrightarrow> text_like (dict_get c ''documentText'') \<Longrightarrow>
     is_str (text_or_document_text c)"
  by (auto simp: text_or_document_text_def py_or_def text_like_def)

lemma content_text_str: "nested_text_like content \<Longrightarrow> is_str (content_text content)"
  by (induction content rule: content_text.induct) (simp_all add: text_or_document_text_str)

lemma document_ok_get: "document_ok d \<Longrightarrow> \<exists>v. py_get (py_or d (PDict [])) k = Inr v"
  by (cases d) (simp_all add: py_or_def)

lemma document_ok_text:
  "document_ok d \<Longrightarrow> \<exists>v. py_get (py_or d (PDict [])) ''text'' = Inr v \<and> text_like v"
  by (cases d) (auto simp: py_or_def dict_get_def text_like_def)






subsection \<open>The prompt gate\<close>

text \<open>
  C2 (the code differs). The claim: \<open>classify\<close> applied to the adapter text
  \<open>Category E\<close> yields the category \<open>E\<close>. The code scans the upper-cased text
  \<open>CATEGORY E\<close> for the letters in the order A, B, C, D, E and returns at the first one
  it finds anywhere in the text; the word \<open>CATEGORY\<close> contains an A, so the category
  is \<open>A\<close>.
\<close>

theorem category_e_classified_as_a:
  "fst (valid_prompt (canned_env ''Category E'') ''What is the capital of France?'' haiku [])
     = classification (PStr ''A'') ''Category E''"
  by code_simp

subsection \<open>The batch of retrieval results\<close>

text \<open>
  C6 (the code differs). The claim: when the batch is a record and none of its probed
  keys holds a sequence, the batch is treated as empty. In the code the batch then stays
  the record, and the comprehension iterates over it, that is over its keys: the
  response \<open>{"results": {"foo": "bar"}}\<close> gives one passage, whose text is the key
  \<open>foo\<close>.
\<close>

theorem record_batch_without_list_yields_keys:
  "normalize_response (PDict [(''results'', PDict [(''foo'', PStr ''bar'')])])
     = Inr [PDict [(''id'', PNone), (''text'', PStr ''foo''),
                   (''metadata'', PDict []), (''score'', PNone)]]"
  by code_simp

subsection \<open>The response of the model\<close>

text \<open>
  C10. For the decoded response \<open>{"output": "hello"}\<close> the extraction returns exactly
  the string \<open>hello\<close>.
\<close>

theorem extract_output_hello:
  "extract_text (PDict [(''output'', PStr ''hello'')]) = Inr (PStr ''hello'')"
  by code_simp

subsection \<open>The chat turn\<close>

text \<open>
  C1 (the code differs). The claim: when the classification has no category, the turn
  returns the fixed rejection message and calls neither retrieval nor generation. The
  code tests the dictionary that \<open>valid_prompt\<close> returns, not its category; the dictionary
  has two keys and is true whatever they hold, so the rejection branch is never taken.
  Here the model answers \<open>Sorry\<close>, the category is \<open>None\<close>, and the turn still queries
  the knowledge base, invokes the model a second time and returns its answer.
\<close>

theorem gate_none_not_rejected:
  "fst (valid_prompt (canned_env ''Sorry'') ''hi'' haiku []) = classification PNone ''Sorry''
   \<and> (case respond (canned_env ''Sorry'') ''hi'' haiku ''KB1'' (PFloat ''1.0'') (PFloat ''1.0'') [] of
        (response, log) \<Rightarrow>
          response = PStr ''Sorry''
          \<and> response \<noteq> PStr rejection_message
          \<and> filter is_retrieve log = [Retrieve ''KB1'' ''hi'' 3]
          \<and> length (filter is_invoke log) = 2)"
  by code_simp

subsection \<open>The normaliser of retrieval items\<close>

text \<open>
  C3, as stated, fails. The claim: for every raw item, of any shape, the normaliser returns
  a passage whose text is a string, and never raises. An item whose \<open>text\<close> is the number
  42 gives a passage whose text is that number; an item whose \<open>document\<close> is a non-empty
  string makes \<open>doc.get\<close> raise \<open>AttributeError\<close>.
\<close>

theorem normalize_text_not_string:
  "normalize_retrieval_item (PDict [(''text'', PInt 42)])
     = Inr (PDict [(''id'', PNone), (''text'', PInt 42),
                   (''metadata'', PDict []), (''score'', PNone)])
   \<and> normalize_retrieval_item (PDict [(''document'', PStr ''doc-1'')])
     = Inl (AttributeError (quoted ''str'' @ '' object has no attribute '' @ quoted ''get''))"
  by code_simp

text \<open>
  C3, amended. For every raw item that is not a record, and for every record whose
  \<open>document\<close> is absent, false or a record and whose text candidates are each a string
  or false, the normaliser returns a passage whose text is a string, and does not raise.
  In particular a record that has none of the keys \<open>content\<close>, \<open>contents\<close>, \<open>text\<close>,
  \<open>documentText\<close> and \<open>document\<close> gives a passage whose text is the empty string.
\<close>

theorem normalize_well_shaped:
  "(well_shaped_item item \<longrightarrow>
      (\<exists>p. normalize_retrieval_item item = Inr p \<and> is_str (passage_text p)))
   \<and> (map_of d ''content'' = None \<and> map_of d ''contents'' = None \<and> map_of d ''text'' = None
        \<and> map_of d ''documentText'' = None \<and> map_of d ''document'' = None \<longrightarrow>
      (\<exists>p. normalize_retrieval_item (PDict d) = Inr p \<and> passage_text p = PStr []))"
proof (intro conjI impI)
  assume shaped: "well_shaped_item item"
  show "\<exists>p. normalize_retrieval_item item = Inr p \<and> is_str (passage_text p)"
  proof (cases item)
    case (PDict i)
    let ?doc = "py_or (dict_get i ''document'') (PDict [])"
    from shaped PDict have doc: "document_ok (dict_get i ''document'')"
      and nest: "nested_text_like (py_or (dict_get i ''content'') (dict_get i ''contents''))"
      and t1: "text_like (dict_get i ''text'')"
      and t2: "text_like (dict_get i ''documentText'')"
      by simp_all
    from document_ok_text [OF doc]
    obtain vt where vt: "py_get ?doc ''text'' = Inr vt" "text_like vt"
      by blast
    from document_ok_get [OF doc] obtain vi where vi: "py_get ?doc ''id'' = Inr vi"
      by blast
    from document_ok_get [OF doc] obtain vm where vm: "py_get ?doc ''metadata'' = Inr vm"
      by blast
    have c: "is_str (content_text (py_or (dict_get i ''content'') (dict_get i ''contents'')))"
      using nest by (rule content_text_str)
    show ?thesis
      using vt vi vm c t1 t2
      by (auto simp: PDict Let_def and_then_def or_doc_get_def py_or_def text_like_def
            dict_get_def)
  qed (simp_all add: dict_get_def)
next
  assume "map_of d ''content'' = None \<and> map_of d ''contents'' = None \<and> map_of d ''text'' = None
        \<and> map_of d ''documentText'' = None \<and> map_of d ''document'' = None"
  then show "\<exists>p. normalize_retrieval_item (PDict d) = Inr p \<and> passage_text p = PStr []"
    by (simp add: Let_def and_then_def or_doc_get_def py_or_def dict_get_def)
qed

text \<open>
  The amended C3 at two items: a retrieval result with its text under \<open>content\<close>, and a
  record with a score only.
\<close>

theorem normalize_well_shaped_witness:
  "(\<exists>p. normalize_retrieval_item
          (PDict [(''content'', PDict [(''text'', PStr ''Paris'')]), (''score'', PFloat ''0.5'')])
        = Inr p \<and> is_str (passage_text p))
   \<and> (\<exists>p. normalize_retrieval_item (PDict [(''score'', PFloat ''0.5'')]) = Inr p
        \<and> passage_text p = PStr [])"
proof -
  have shaped: "well_shaped_item
      (PDict [(''content'', PDict [(''text'', PStr ''Paris'')]), (''score'', PFloat ''0.5'')])"
    by (simp add: dict_get_def py_or_def text_like_def)
  have missing: "map_of [(''score'', PFloat ''0.5'')] ''content'' = None
      \<and> map_of [(''score'', PFloat ''0.5'')] ''contents'' = None
      \<and> map_of [(''score'', PFloat ''0.5'')] ''text'' = None
      \<and> map_of [(''score'', PFloat ''0.5'')] ''documentText'' = None
      \<and> map_of [(''score'', PFloat ''0.5'')] ''document'' = None"
    by simp
  from shaped missing
    normalize_well_shaped
      [of "PDict [(''content'', PDict [(''text'', PStr ''Paris'')]), (''score'', PFloat ''0.5'')]"
          "[(''score'', PFloat ''0.5'')]"]
  show ?thesis by blast
qed

subsection \<open>Errors of the retrieval capability\<close>

text \<open>
  C9. When the call of the retrieval capability raises, whatever the error,
  \<open>query_knowledge_base\<close> returns the empty list: the error is printed, not passed on.
\<close>

theorem retrieval_error_gives_no_passages:
  "retrieve env kb_id query top_k = Inl e \<Longrightarrow>
     query_knowledge_base env query kb_id top_k log
       = ([], log @ [Retrieve kb_id query top_k, Printed (kb_error_line e)])"
  by (simp add: query_knowledge_base_def and_then_def)

text \<open>C9 at a knowledge base that does not exist.\<close>

theorem retrieval_error_gives_no_passages_witness:
  "fst (query_knowledge_base (canned_env ''ok'') ''hi'' ''missing'' 3 []) = []"
  using retrieval_error_gives_no_passages
          [of "canned_env ''ok''" "''missing''" "''hi''" 3
              "ClientError ''An error occurred (ResourceNotFoundException)''" "[]"]
  by (simp add: canned_env_def)

subsection \<open>The assembled context\<close>

text \<open>
  C4. For every sequence of passages the assembled context has at most 15000 characters
  plus the length of the truncation marker. When the joined text is longer than 15000
  characters the context is its first 15000 characters followed by the marker; and every
  passage text longer than 5000 characters enters the join as its first 5000 characters
  followed by the marker.
\<close>

theorem assemble_context_bounded:
  "length (assemble_context rs) \<le> 15000 + length truncation_marker
   \<and> (15000 < length (py_join ''\<newline>'' (collect_pieces rs [])) \<longrightarrow>
        assemble_context rs
          = take 15000 (py_join ''\<newline>'' (collect_pieces rs [])) @ truncation_marker)
   \<and> (\<forall>r \<in> set rs. 5000 < length (resolve_text r) \<longrightarrow>
        take 5000 (resolve_text r) @ truncation_marker \<in> set (collect_pieces rs []))"
proof (intro conjI ballI impI)
  show "length (assemble_context rs) \<le> 15000 + length truncation_marker"
    unfolding assemble_context_def by (rule length_cap_context)
next
  assume "15000 < length (py_join ''\<newline>'' (collect_pieces rs []))"
  then show "assemble_context rs
          = take 15000 (py_join ''\<newline>'' (collect_pieces rs [])) @ truncation_marker"
    by (simp add: assemble_context_def cap_context_def)
next
  fix r assume r: "r \<in> set rs" and long: "5000 < length (resolve_text r)"
  from long have ne: "resolve_text r \<noteq> []" by auto
  from long have "cap_piece (resolve_text r) = take 5000 (resolve_text r) @ truncation_marker"
    by (simp add: cap_piece_def)
  moreover from r ne have "cap_piece (resolve_text r) \<in> set (collect_pieces rs [])"
    by (auto simp: collect_pieces_filter)
  ultimately show "take 5000 (resolve_text r) @ truncation_marker \<in> set (collect_pieces rs [])"
    by simp
qed

text \<open>C4 at four passages of 5001 characters: both truncations occur.\<close>

theorem assemble_context_bounded_witness:
  "assemble_context long_passages
     = take 15000 (py_join ''\<newline>'' (collect_pieces long_passages [])) @ truncation_marker
   \<and> take 5000 (long_text 5001) @ truncation_marker \<in> set (collect_pieces long_passages [])"
proof -
  let ?p = "text_passage (long_text 5001)"
  have ne: "long_text 5001 \<noteq> []"
    using length_long_text [of 5001] by auto
  have r: "resolve_text ?p = long_text 5001"
    using ne by (rule resolve_text_passage)
  have pieces: "collect_pieces long_passages []
      = [cap_piece (long_text 5001), cap_piece (long_text 5001),
         cap_piece (long_text 5001), cap_piece (long_text 5001)]"
    using ne by (simp add: long_passages_def collect_pieces_filter r)
  have "length (cap_piece (long_text 5001)) = 5015"
    by (simp add: cap_piece_def length_long_text length_truncation_marker)
  then have long: "15000 < length (py_join ''\<newline>'' (collect_pieces long_passages []))"
    by (simp add: pieces)
  have mem: "?p \<in> set long_passages"
    by (simp add: long_passages_def)
  have big: "5000 < length (resolve_text ?p)"
    by (simp add: r length_long_text)
  from assemble_context_bounded [of long_passages] long mem big r
  show ?thesis by auto
qed

text \<open>
  C7. For a single passage whose text has exactly 5001 characters, the assembled context
  is the first 5000 characters of that text followed by the truncation marker.
\<close>

theorem single_long_passage_truncated:
  assumes "map_of p ''text'' = Some (PStr t)" and "length t = 5001"
  shows "assemble_context [PDict p] = take 5000 t @ truncation_marker"
proof -
  from assms(2) have ne: "t \<noteq> []" by auto
  with assms(1) have "resolve_text (PDict p) = t" by (rule resolve_text_of_text)
  with ne assms(2) have "collect_pieces [PDict p] [] = [take 5000 t @ truncation_marker]"
    by (simp add: cap_piece_def)
  with assms(2) show ?thesis
    by (simp add: assemble_context_def cap_context_def length_truncation_marker)
qed

text \<open>C7 at a normalised passage of 5001 characters.\<close>

theorem single_long_passage_truncated_witness:
  "assemble_context [text_passage (long_text 5001)]
     = take 5000 (long_text 5001) @ truncation_marker"
  using single_long_passage_truncated
          [of "[(''id'', PNone), (''text'', PStr (long_text 5001)),
                (''metadata'', PDict []), (''score'', PNone)]" "long_text 5001"]
  by (simp add: text_passage_def length_long_text)




subsection \<open>The request payload\<close>




end
